theory Spec2Isabelle
  imports Main
begin

section \<open>The to-do handler of \<open>src/pages/api/todo.ts\<close>\<close>

text \<open>
  The handler serves the four verbs of one resource over one table. The model follows
  it line by line. What the handler takes from outside is made explicit:
  \<^item> the clock (\<open>new Date()\<close>) is the field \<open>now\<close> of the environment, in milliseconds
    of server-local time; the time zone has a constant offset, so a local day is the
    interval of 86400000 ms starting at a multiple of 86400000;
  \<^item> \<open>new Date(s)\<close> on a string is the environment's \<open>parseDate\<close> (\<open>None\<close> is an
    Invalid Date);
  \<^item> JavaScript numbers are integers here (\<open>NaN\<close> is \<open>None\<close>), which is exact below
    \<open>2^53\<close>; strings are byte strings;
  \<^item> the table is a list of rows in the order the store returns them;
  \<^item> every call of the store client may throw: the field \<open>fuse\<close> of the world says how
    many store calls succeed before one throws (\<open>None\<close>: none throws). A throw ends
    the request in the handler's \<open>catch\<close>, so one number describes every execution.
\<close>

subsection \<open>Data\<close>

datatype json = JNull | JBool bool | JNum int | JStr string
  | JArr "json list" | JObj "(string \<times> json) list"

datatype Recurrence = NONE | DAILY

record todo =
  todo_id :: string
  userId :: string
  title :: string
  notes' :: "string option"
  tags :: "string list"
  completed :: bool
  dueAt :: "int option"
  timeOfDay :: "string option"
  recurrence :: Recurrence
  isTemplate :: bool
  templateId :: "string option"

record world =
  rows :: "todo list"
  next_id :: nat
  fuse :: "nat option"

datatype error = StoreFailure | RecordNotFound | ValidationFailure

type_synonym 'a io = "world \<Rightarrow> (error + 'a) \<times> world"

definition ret :: "'a \<Rightarrow> 'a io" where
  "ret x w = (Inr x, w)"

definition throw :: "error \<Rightarrow> 'a io" where
  "throw e w = (Inl e, w)"

definition bind :: "'a io \<Rightarrow> ('a \<Rightarrow> 'b io) \<Rightarrow> 'b io" where
  "bind m f w = (case m w of (Inl e, w') \<Rightarrow> (Inl e, w') | (Inr x, w') \<Rightarrow> f x w')"

subsection \<open>The store client\<close>

text \<open>
  Modelled from the spec: the table declaration (the Prisma schema) is not among the
  sources. Section 3 of the specification gives the columns and their defaults
  (\<open>completed\<close> false, \<open>tags\<close> empty, the optional columns null), calls \<open>id\<close> an opaque
  unique identifier assigned at creation, and calls \<open>templateId\<close> a weak reference, so
  deleting a row has no effect on the rows that refer to it. The \<open>n\<close>-th row created
  gets the identifier \<open>gen_id n\<close>.

  The client calls behave as the client library documents them: \<open>findMany\<close>,
  \<open>findFirst\<close>, \<open>findUnique\<close> and \<open>deleteMany\<close> accept an empty match; \<open>update\<close> and
  \<open>delete\<close> throw when no row matches; a negative \<open>take\<close> counts from the end of the
  list and a \<open>take\<close> that is not a number is rejected.
\<close>

definition gen_id :: "nat \<Rightarrow> string" where
  "gen_id n = replicate (Suc n) (CHR ''c'')"

definition store_call :: "unit io" where
  "store_call w =
     (case fuse w of
        None \<Rightarrow> (Inr (), w)
      | Some 0 \<Rightarrow> (Inl StoreFailure, w)
      | Some (Suc k) \<Rightarrow> (Inr (), w\<lparr>fuse := Some k\<rparr>))"

definition apply_take :: "int \<Rightarrow> 'a list \<Rightarrow> 'a list" where
  "apply_take n xs = (if 0 \<le> n then take (nat n) xs else drop (length xs - nat (- n)) xs)"

definition findMany :: "(todo \<Rightarrow> bool) \<Rightarrow> int option option \<Rightarrow> todo list io" where
  "findMany wh tk =
     (case tk of
        Some None \<Rightarrow> throw ValidationFailure
      | _ \<Rightarrow> bind store_call (\<lambda>_ w.
          let found = filter wh (rows w)
          in (Inr (case tk of Some (Some n) \<Rightarrow> apply_take n found | _ \<Rightarrow> found), w)))"

definition findFirst :: "(todo \<Rightarrow> bool) \<Rightarrow> todo option io" where
  "findFirst wh = bind store_call (\<lambda>_ w. (Inr (find wh (rows w)), w))"

definition findUnique :: "(todo \<Rightarrow> bool) \<Rightarrow> todo option io" where
  "findUnique wh = bind store_call (\<lambda>_ w. (Inr (find wh (rows w)), w))"

definition new_row :: "string \<Rightarrow> string \<Rightarrow> todo" where
  "new_row uid ttl =
     \<lparr>todo_id = [], userId = uid, title = ttl, notes' = None, tags = [], completed = False,
      dueAt = None, timeOfDay = None, recurrence = NONE, isTemplate = False,
      templateId = None\<rparr>"

definition create :: "todo \<Rightarrow> todo io" where
  "create d = bind store_call (\<lambda>_ w.
     let r = d\<lparr>todo_id := gen_id (next_id w)\<rparr>
     in (Inr r, w\<lparr>rows := rows w @ [r], next_id := Suc (next_id w)\<rparr>))"

definition update :: "(todo \<Rightarrow> bool) \<Rightarrow> (todo \<Rightarrow> todo) \<Rightarrow> todo io" where
  "update wh f = bind store_call (\<lambda>_ w.
     case find wh (rows w) of
       None \<Rightarrow> (Inl RecordNotFound, w)
     | Some r \<Rightarrow> (Inr (f r), w\<lparr>rows := map (\<lambda>x. if wh x then f x else x) (rows w)\<rparr>))"

definition delete :: "(todo \<Rightarrow> bool) \<Rightarrow> todo io" where
  "delete wh = bind store_call (\<lambda>_ w.
     case find wh (rows w) of
       None \<Rightarrow> (Inl RecordNotFound, w)
     | Some r \<Rightarrow> (Inr r, w\<lparr>rows := filter (\<lambda>x. \<not> wh x) (rows w)\<rparr>))"

definition deleteMany :: "(todo \<Rightarrow> bool) \<Rightarrow> nat io" where
  "deleteMany wh = bind store_call (\<lambda>_ w.
     (Inr (length (filter wh (rows w))), w\<lparr>rows := filter (\<lambda>x. \<not> wh x) (rows w)\<rparr>))"

subsection \<open>JavaScript helpers the handler uses\<close>

text \<open>\<open>s.split(':')\<close>: the pieces between the colons, one piece more than colons.\<close>

fun split_colon :: "string \<Rightarrow> string list" where
  "split_colon [] = [[]]"
| "split_colon (c # cs) =
     (if c = CHR '':'' then [] # split_colon cs
      else (case split_colon cs of p # ps \<Rightarrow> (c # p) # ps | [] \<Rightarrow> [[c]]))"

definition is_space :: "char \<Rightarrow> bool" where
  "is_space c = (c \<in> set [CHR 0x09, CHR 0x0A, CHR 0x0B, CHR 0x0C, CHR 0x0D, CHR 0x20])"

definition digit_val :: "char \<Rightarrow> nat option" where
  "digit_val c =
     (let n = of_char c :: nat in
      if 48 \<le> n \<and> n \<le> 57 then Some (n - 48)
      else if 97 \<le> n \<and> n \<le> 122 then Some (n - 87)
      else if 65 \<le> n \<and> n \<le> 90 then Some (n - 55)
      else None)"

definition is_digit :: "nat \<Rightarrow> char \<Rightarrow> bool" where
  "is_digit radix c = (case digit_val c of None \<Rightarrow> False | Some d \<Rightarrow> d < radix)"

definition digits_val :: "nat \<Rightarrow> string \<Rightarrow> nat" where
  "digits_val radix ds = foldl (\<lambda>acc c. acc * radix + the (digit_val c)) 0 ds"

text \<open>
  \<open>parseInt(s)\<close> with no radix: leading white space (the ASCII white space, strings
  being byte strings), an optional sign, an optional \<open>0x\<close> that selects base 16, then
  the longest run of digits; \<open>NaN\<close> when that run is empty.
\<close>

definition parseInt :: "string \<Rightarrow> int option" where
  "parseInt s =
     (let t = dropWhile is_space s;
          neg = (t \<noteq> [] \<and> hd t = CHR ''-'');
          u = (if t \<noteq> [] \<and> (hd t = CHR ''-'' \<or> hd t = CHR ''+'') then tl t else t);
          hex = (take 2 u = ''0x'' \<or> take 2 u = ''0X'');
          radix = (if hex then 16 else 10);
          v = (if hex then drop 2 u else u);
          ds = takeWhile (is_digit radix) v
      in if ds = [] then None
         else Some ((if neg then - 1 else 1) * int (digits_val radix ds)))"

text \<open>
  \<open>const [hh, mm] = parts.map(v => parseInt(v))\<close>: a missing element is \<open>undefined\<close>,
  which \<open>||\<close> treats as it treats \<open>NaN\<close>.
\<close>

definition nth_num :: "int option list \<Rightarrow> nat \<Rightarrow> int option" where
  "nth_num xs i = (if i < length xs then xs ! i else None)"

text \<open>\<open>x || d\<close> on numbers: \<open>d\<close> when \<open>x\<close> is \<open>NaN\<close>, \<open>undefined\<close> or zero.\<close>

definition num_or :: "int option \<Rightarrow> int \<Rightarrow> int" where
  "num_or x d = (case x of None \<Rightarrow> d | Some v \<Rightarrow> if v = 0 then d else v)"

text \<open>\<open>s || d\<close> on an optional string: \<open>d\<close> when \<open>s\<close> is null, undefined or empty.\<close>

definition str_or :: "string option \<Rightarrow> string \<Rightarrow> string" where
  "str_or s d = (case s of None \<Rightarrow> d | Some v \<Rightarrow> if v = [] then d else v)"

definition ms_day :: int where "ms_day = 86400000"
definition ms_hour :: int where "ms_hour = 3600000"
definition ms_minute :: int where "ms_minute = 60000"

text \<open>\<open>new Date(y, m, d, 0, 0, 0, 0)\<close> for the day of \<open>t\<close>.\<close>

definition start_of_day :: "int \<Rightarrow> int" where
  "start_of_day t = t - t mod ms_day"

text \<open>\<open>new Date(y, m, d, 23, 59, 59, 999)\<close> for the day of \<open>t\<close>.\<close>

definition end_of_day :: "int \<Rightarrow> int" where
  "end_of_day t = start_of_day t + 23 * ms_hour + 59 * ms_minute + 59 * 1000 + 999"

text \<open>\<open>d.setHours(h, m, 0, 0)\<close>: the day of \<open>d\<close> is kept, the time of day replaced;
  hours and minutes outside a day carry into other days. Instants are unbounded here;
  in JavaScript a Date more than 8.64e15 ms from the epoch is invalid, which takes an
  hour count of nine digits or more.\<close>

definition setHours :: "int \<Rightarrow> int \<Rightarrow> int \<Rightarrow> int" where
  "setHours d h m = start_of_day d + h * ms_hour + m * ms_minute"

definition getHours :: "int \<Rightarrow> int" where
  "getHours t = (t mod ms_day) div ms_hour"

definition getMinutes :: "int \<Rightarrow> int" where
  "getMinutes t = (t mod ms_hour) div ms_minute"

text \<open>\<open>String(n).padStart(2, '0')\<close> for \<open>0 \<le> n < 100\<close>, the range of hours and minutes.\<close>

definition pad2 :: "int \<Rightarrow> string" where
  "pad2 n = [char_of (48 + nat n div 10), char_of (48 + nat n mod 10)]"

text \<open>The hour or minute of a date that may be invalid, padded: \<open>NaN\<close> prints as itself.\<close>

definition pad2_of :: "(int \<Rightarrow> int) \<Rightarrow> int option \<Rightarrow> string" where
  "pad2_of get d = (case d of None \<Rightarrow> ''NaN'' | Some t \<Rightarrow> pad2 (get t))"

text \<open>\<open>now.toTimeString().slice(0,5)\<close>.\<close>

definition time_string :: "int \<Rightarrow> string" where
  "time_string t = pad2 (getHours t) @ '':'' @ pad2 (getMinutes t)"

definition falsy :: "json \<Rightarrow> bool" where
  "falsy j = (j = JNull \<or> j = JBool False \<or> j = JNum 0 \<or> j = JStr [])"

text \<open>Reading a property: \<open>undefined\<close> (\<open>None\<close>) on anything but an object that has it.\<close>

definition field :: "string \<Rightarrow> json \<Rightarrow> json option" where
  "field k j = (case j of JObj kvs \<Rightarrow> map_of kvs k | _ \<Rightarrow> None)"

subsection \<open>Requests and responses\<close>

datatype qparam = QAbsent | QStr string | QArr "string list"

record request =
  session_user :: "string option"
  http_method :: string
  query_completed :: qparam
  query_limit :: qparam
  body :: json

record env =
  now :: int
  parseDate :: "string \<Rightarrow> int option"

datatype payload = Todos "todo list" | OneTodo todo | Message string | Error string

datatype response = Resp nat payload


subsection \<open>GET: reconciliation, then the listing\<close>

text \<open>The \<open>where\<close> of the \<open>findFirst\<close> in the loop: today's instance of a template.\<close>

definition instance_today :: "string \<Rightarrow> int \<Rightarrow> int \<Rightarrow> string \<Rightarrow> todo \<Rightarrow> bool" where
  "instance_today uid startOfDay endOfDay tplId r =
     (userId r = uid \<and> \<not> isTemplate r \<and> templateId r = Some tplId \<and>
      (case dueAt r of None \<Rightarrow> False | Some d \<Rightarrow> startOfDay \<le> d \<and> d \<le> endOfDay))"

text \<open>Lines 37 to 39: the due time built from the template's \<open>timeOfDay\<close>.\<close>

definition template_due :: "int \<Rightarrow> todo \<Rightarrow> int" where
  "template_due startOfDay tpl =
     (let parts = map parseInt (split_colon (str_or (timeOfDay tpl) ''09:00''));
          hh = nth_num parts 0;
          mm = nth_num parts 1
      in setHours startOfDay (num_or hh 9) (num_or mm 0))"

definition ensure_instance :: "string \<Rightarrow> int \<Rightarrow> int \<Rightarrow> todo \<Rightarrow> unit io" where
  "ensure_instance uid startOfDay endOfDay tpl =
     bind (findFirst (instance_today uid startOfDay endOfDay (todo_id tpl))) (\<lambda>exists.
       case exists of
         Some _ \<Rightarrow> ret ()
       | None \<Rightarrow>
           bind (create ((new_row uid (title tpl))
                   \<lparr>notes' := notes' tpl,
                    dueAt := Some (template_due startOfDay tpl),
                    tags := tags tpl,
                    templateId := Some (todo_id tpl),
                    isTemplate := False,
                    recurrence := NONE\<rparr>))
             (\<lambda>_. ret ()))"

text \<open>The \<open>for\<close> loop over the templates; a throw leaves the loop.\<close>

fun reconcile :: "string \<Rightarrow> int \<Rightarrow> int \<Rightarrow> todo list \<Rightarrow> world \<Rightarrow> (error + unit) \<times> world" where
  "reconcile uid startOfDay endOfDay [] w = (Inr (), w)"
| "reconcile uid startOfDay endOfDay (tpl # tpls) w =
     (case ensure_instance uid startOfDay endOfDay tpl w of
        (Inl e, w') \<Rightarrow> (Inl e, w')
      | (Inr _, w') \<Rightarrow> reconcile uid startOfDay endOfDay tpls w')"

text \<open>
  The comparator of line 60, by its sign: the difference of the two times, a missing
  \<open>dueAt\<close> counting as \<open>Infinity\<close>; \<open>Infinity - Infinity\<close> is \<open>NaN\<close>, which
  \<open>Array.prototype.sort\<close> reads as zero.
\<close>

definition comparator :: "todo \<Rightarrow> todo \<Rightarrow> int" where
  "comparator a b =
     (case (dueAt a, dueAt b) of
        (Some x, Some y) \<Rightarrow> x - y
      | (Some x, None) \<Rightarrow> - 1
      | (None, Some y) \<Rightarrow> 1
      | (None, None) \<Rightarrow> 0)"

text \<open>\<open>Array.prototype.sort\<close> is stable: an element goes before the first one that the
  comparator puts strictly after it.\<close>

fun insert_sorted :: "('a \<Rightarrow> 'a \<Rightarrow> int) \<Rightarrow> 'a \<Rightarrow> 'a list \<Rightarrow> 'a list" where
  "insert_sorted cmp x [] = [x]"
| "insert_sorted cmp x (y # ys) =
     (if cmp y x \<le> 0 then y # insert_sorted cmp x ys else x # y # ys)"

definition js_sort :: "('a \<Rightarrow> 'a \<Rightarrow> int) \<Rightarrow> 'a list \<Rightarrow> 'a list" where
  "js_sort cmp xs = foldl (\<lambda>acc x. insert_sorted cmp x acc) [] xs"

fun join_comma :: "string list \<Rightarrow> string" where
  "join_comma [] = []"
| "join_comma [x] = x"
| "join_comma (x # y # ys) = x @ '','' @ join_comma (y # ys)"

text \<open>\<open>String(limit)\<close> with the default \<open>'200'\<close> of the destructuring.\<close>

definition limit_string :: "qparam \<Rightarrow> string" where
  "limit_string q = (case q of QAbsent \<Rightarrow> ''200'' | QStr s \<Rightarrow> s | QArr xs \<Rightarrow> join_comma xs)"

definition listing_where :: "string \<Rightarrow> qparam \<Rightarrow> todo \<Rightarrow> bool" where
  "listing_where uid q r =
     (userId r = uid \<and> \<not> isTemplate r \<and>
      (case q of QStr s \<Rightarrow> completed r = (s = ''true'') | _ \<Rightarrow> True))"

definition do_GET :: "env \<Rightarrow> string \<Rightarrow> qparam \<Rightarrow> qparam \<Rightarrow> response io" where
  "do_GET e uid q_completed q_limit =
     bind (findMany (\<lambda>r. userId r = uid \<and> isTemplate r \<and> recurrence r = DAILY) None)
       (\<lambda>templates.
     bind (reconcile uid (start_of_day (now e)) (end_of_day (now e)) templates) (\<lambda>_.
     bind (findMany (listing_where uid q_completed) (Some (parseInt (limit_string q_limit))))
       (\<lambda>todos.
     ret (Resp 200 (Todos (js_sort comparator todos))))))"

subsection \<open>POST: a template or a one-off\<close>

record todo_input =
  in_title :: string
  in_notes :: "string option"
  in_dueDate :: "string option"
  in_recurrence :: "Recurrence option"
  in_isTemplate :: "bool option"
  in_timeOfDay :: "string option"
  in_tags :: "string list option"
  in_completed :: "bool option"
  in_position :: "int option"

text \<open>
  The validators of \<open>todoSchema\<close>. The outer \<open>None\<close> is a validation failure; an
  optional field that is absent is \<open>Some None\<close> (null is not absent and fails).
\<close>

definition z_string :: "json option \<Rightarrow> string option option" where
  "z_string j = (case j of None \<Rightarrow> Some None | Some (JStr s) \<Rightarrow> Some (Some s) | _ \<Rightarrow> None)"

definition z_boolean :: "json option \<Rightarrow> bool option option" where
  "z_boolean j = (case j of None \<Rightarrow> Some None | Some (JBool b) \<Rightarrow> Some (Some b) | _ \<Rightarrow> None)"

definition z_int :: "json option \<Rightarrow> int option option" where
  "z_int j = (case j of None \<Rightarrow> Some None | Some (JNum n) \<Rightarrow> Some (Some n) | _ \<Rightarrow> None)"

definition enum_of :: "string \<Rightarrow> Recurrence option" where
  "enum_of s = (if s = ''NONE'' then Some NONE else if s = ''DAILY'' then Some DAILY else None)"

definition z_recurrence :: "json option \<Rightarrow> Recurrence option option" where
  "z_recurrence j =
     (case j of
        None \<Rightarrow> Some None
      | Some (JStr s) \<Rightarrow> (case enum_of s of None \<Rightarrow> None | Some r \<Rightarrow> Some (Some r))
      | _ \<Rightarrow> None)"

fun as_string :: "json \<Rightarrow> string option" where
  "as_string (JStr s) = Some s"
| "as_string _ = None"

definition strings_of :: "json list \<Rightarrow> string list option" where
  "strings_of js = (if list_all (\<lambda>j. as_string j \<noteq> None) js
                    then Some (map (\<lambda>j. the (as_string j)) js) else None)"

definition z_tags :: "json option \<Rightarrow> string list option option" where
  "z_tags j =
     (case j of
        None \<Rightarrow> Some None
      | Some (JArr js) \<Rightarrow> (case strings_of js of None \<Rightarrow> None | Some ss \<Rightarrow> Some (Some ss))
      | _ \<Rightarrow> None)"

definition safeParse :: "json \<Rightarrow> todo_input option" where
  "safeParse b =
     (case b of
        JObj kvs \<Rightarrow>
          (case (field ''title'' b, z_string (field ''notes'' b), z_string (field ''dueDate'' b),
                 z_recurrence (field ''recurrence'' b), z_boolean (field ''isTemplate'' b),
                 z_string (field ''timeOfDay'' b), z_tags (field ''tags'' b),
                 z_boolean (field ''completed'' b), z_int (field ''position'' b)) of
             (Some (JStr t), Some n, Some d, Some r, Some i, Some tod, Some tg, Some c, Some p) \<Rightarrow>
               if 1 \<le> length t
               then Some \<lparr>in_title = t, in_notes = n, in_dueDate = d, in_recurrence = r,
                          in_isTemplate = i, in_timeOfDay = tod, in_tags = tg,
                          in_completed = c, in_position = p\<rparr>
               else None
           | _ \<Rightarrow> None)
      | _ \<Rightarrow> None)"

text \<open>Lines 90 to 94: the due time of a one-off, from its time string.\<close>

definition oneoff_due :: "int \<Rightarrow> string \<Rightarrow> int" where
  "oneoff_due nw timeStr =
     (let parts = map parseInt (split_colon timeStr);
          hh = nth_num parts 0;
          mm = nth_num parts 1
      in setHours nw (num_or hh (getHours nw)) (num_or mm (getMinutes nw)))"

definition do_POST :: "env \<Rightarrow> string \<Rightarrow> json \<Rightarrow> response io" where
  "do_POST e uid b =
     (case safeParse b of
        None \<Rightarrow> ret (Resp 400 (Error ''Invalid input''))
      | Some d \<Rightarrow>
          if in_recurrence d = Some DAILY \<or> field ''isTemplate'' b = Some (JBool True)
          then
            (let base = (if str_or (in_dueDate d) [] = [] then Some (now e)
                         else parseDate e (the (in_dueDate d)));
                 hh = pad2_of getHours base;
                 mm = pad2_of getMinutes base
             in bind (create ((new_row uid (in_title d))
                        \<lparr>notes' := in_notes d,
                         timeOfDay := Some (hh @ '':'' @ mm),
                         recurrence := DAILY,
                         isTemplate := True,
                         tags := (case in_tags d of None \<Rightarrow> [] | Some ts \<Rightarrow> ts)\<rparr>))
                  (\<lambda>todo. ret (Resp 201 (OneTodo todo))))
          else
            (let timeStr = str_or (in_timeOfDay d) (time_string (now e))
             in bind (create ((new_row uid (in_title d))
                        \<lparr>notes' := in_notes d,
                         dueAt := Some (oneoff_due (now e) timeStr),
                         timeOfDay := Some timeStr,
                         recurrence := NONE,
                         isTemplate := False,
                         tags := (case in_tags d of None \<Rightarrow> [] | Some ts \<Rightarrow> ts),
                         completed := (case in_completed d of None \<Rightarrow> False | Some c \<Rightarrow> c)\<rparr>))
                  (\<lambda>todo. ret (Resp 201 (OneTodo todo)))))"

subsection \<open>PUT: the field whitelist\<close>

record updates =
  u_title :: "string option"
  u_notes :: "string option option"
  u_tags :: "json list option"
  u_completed :: "bool option"
  u_timeOfDay :: "string option"
  u_dueAt :: "int option"
  u_recurrence :: "string option"
  u_isTemplate :: "bool option"

text \<open>Lines 116 to 130: which fields of the body reach the update.\<close>

definition build_updates :: "env \<Rightarrow> json \<Rightarrow> updates" where
  "build_updates e rest =
     \<lparr>u_title = (case field ''title'' rest of Some (JStr s) \<Rightarrow> Some s | _ \<Rightarrow> None),
      u_notes = (case field ''notes'' rest of
                   Some (JStr s) \<Rightarrow> Some (Some s) | Some JNull \<Rightarrow> Some None | _ \<Rightarrow> None),
      u_tags = (case field ''tags'' rest of Some (JArr js) \<Rightarrow> Some js | _ \<Rightarrow> None),
      u_completed = (case field ''completed'' rest of Some (JBool b) \<Rightarrow> Some b | _ \<Rightarrow> None),
      u_timeOfDay = (case field ''timeOfDay'' rest of Some (JStr s) \<Rightarrow> Some s | _ \<Rightarrow> None),
      u_dueAt = (case field ''timeOfDay'' rest of
                   Some (JStr s) \<Rightarrow>
                     (let parts = map parseInt (split_colon s)
                      in Some (setHours (now e) (num_or (nth_num parts 0) 0)
                                 (num_or (nth_num parts 1) 0)))
                 | _ \<Rightarrow> None),
      u_recurrence = (case field ''recurrence'' rest of Some (JStr s) \<Rightarrow> Some s | _ \<Rightarrow> None),
      u_isTemplate = (case field ''isTemplate'' rest of Some (JBool b) \<Rightarrow> Some b | _ \<Rightarrow> None)\<rparr>"

text \<open>What the store client accepts as \<open>data\<close>: tags that are strings, a recurrence of
  the enumeration.\<close>

definition valid_updates :: "updates \<Rightarrow> bool" where
  "valid_updates u =
     ((case u_tags u of None \<Rightarrow> True | Some js \<Rightarrow> strings_of js \<noteq> None) \<and>
      (case u_recurrence u of None \<Rightarrow> True | Some s \<Rightarrow> enum_of s \<noteq> None))"

definition apply_updates :: "updates \<Rightarrow> todo \<Rightarrow> todo" where
  "apply_updates u r =
     r\<lparr>title := (case u_title u of None \<Rightarrow> title r | Some t \<Rightarrow> t),
       notes' := (case u_notes u of None \<Rightarrow> notes' r | Some n \<Rightarrow> n),
       tags := (case u_tags u of None \<Rightarrow> tags r | Some js \<Rightarrow> the (strings_of js)),
       completed := (case u_completed u of None \<Rightarrow> completed r | Some c \<Rightarrow> c),
       timeOfDay := (case u_timeOfDay u of None \<Rightarrow> timeOfDay r | Some s \<Rightarrow> Some s),
       dueAt := (case u_dueAt u of None \<Rightarrow> dueAt r | Some d \<Rightarrow> Some d),
       recurrence := (case u_recurrence u of None \<Rightarrow> recurrence r | Some s \<Rightarrow> the (enum_of s)),
       isTemplate := (case u_isTemplate u of None \<Rightarrow> isTemplate r | Some b \<Rightarrow> b)\<rparr>"

text \<open>\<open>const { id, ...rest } = req.body || {}\<close> and \<open>if (!id)\<close>: the id that is
  present and truthy.\<close>

definition body_id :: "json \<Rightarrow> json option" where
  "body_id b =
     (case field ''id'' (if falsy b then JObj [] else b) of
        None \<Rightarrow> None
      | Some i \<Rightarrow> if falsy i then None else Some i)"

definition by_id :: "string \<Rightarrow> string \<Rightarrow> todo \<Rightarrow> bool" where
  "by_id i uid r = (todo_id r = i \<and> userId r = uid)"

definition do_PUT :: "env \<Rightarrow> string \<Rightarrow> json \<Rightarrow> response io" where
  "do_PUT e uid b =
     (case body_id b of
        None \<Rightarrow> ret (Resp 400 (Error ''id is required''))
      | Some i \<Rightarrow>
          (let upd = build_updates e b
           in case as_string i of
                None \<Rightarrow> throw ValidationFailure
              | Some ident \<Rightarrow>
                  if \<not> valid_updates upd then throw ValidationFailure
                  else bind (update (by_id ident uid) (apply_updates upd))
                         (\<lambda>todo. ret (Resp 200 (OneTodo todo)))))"

subsection \<open>DELETE: the cascade\<close>

definition do_DELETE :: "string \<Rightarrow> json \<Rightarrow> response io" where
  "do_DELETE uid b =
     (case body_id b of
        None \<Rightarrow> ret (Resp 400 (Error ''id is required''))
      | Some i \<Rightarrow>
          (case as_string i of
             None \<Rightarrow> throw ValidationFailure
           | Some ident \<Rightarrow>
               bind (findUnique (by_id ident uid)) (\<lambda>found.
                 case found of
                   None \<Rightarrow> ret (Resp 404 (Error ''Todo not found''))
                 | Some todo \<Rightarrow>
                     if str_or (templateId todo) [] \<noteq> [] then
                       bind (delete (by_id (the (templateId todo)) uid)) (\<lambda>_.
                       bind (deleteMany (\<lambda>r. templateId r = templateId todo \<and> userId r = uid))
                         (\<lambda>_.
                       ret (Resp 200 (Message ''Deleted''))))
                     else if isTemplate todo then
                       bind (deleteMany (\<lambda>r. (todo_id r = ident \<or> templateId r = Some ident)
                                              \<and> userId r = uid)) (\<lambda>_.
                       ret (Resp 200 (Message ''Deleted'')))
                     else
                       bind (delete (by_id ident uid)) (\<lambda>_.
                       ret (Resp 200 (Message ''Deleted''))))))"

subsection \<open>The handler\<close>

text \<open>The session check, the \<open>switch\<close> on the verb, and the \<open>catch\<close> that turns every
  throw into a 500. The \<open>Allow\<close> header of the 405 is not modelled.\<close>

definition handler :: "env \<Rightarrow> request \<Rightarrow> world \<Rightarrow> response \<times> world" where
  "handler e req w =
     (let uid = str_or (session_user req) []
      in if uid = [] then (Resp 401 (Error ''Unauthorized''), w)
         else
           (case (if http_method req = ''GET'' then do_GET e uid (query_completed req) (query_limit req)
                  else if http_method req = ''POST'' then do_POST e uid (body req)
                  else if http_method req = ''PUT'' then do_PUT e uid (body req)
                  else if http_method req = ''DELETE'' then do_DELETE uid (body req)
                  else ret (Resp 405 (Error (''Method '' @ http_method req @ '' not allowed'')))) w of
              (Inl err, w') \<Rightarrow> (Resp 500 (Error ''Internal server error''), w')
            | (Inr r, w') \<Rightarrow> (r, w')))"

section \<open>Requests and stores used as examples\<close>

text \<open>The clock reads 14:37 on the local day that starts at 1728000000000.\<close>

definition env0 :: env where
  "env0 = \<lparr>now = 1728052620000, parseDate = (\<lambda>s. None)\<rparr>"

definition get_req :: "string \<Rightarrow> request" where
  "get_req uid = \<lparr>session_user = Some uid, http_method = ''GET'', query_completed = QAbsent,
                  query_limit = QAbsent, body = JNull\<rparr>"

definition body_req :: "string \<Rightarrow> string \<Rightarrow> json \<Rightarrow> request" where
  "body_req m uid b = \<lparr>session_user = Some uid, http_method = m, query_completed = QAbsent,
                       query_limit = QAbsent, body = b\<rparr>"

text \<open>The request of the client's delete button: \<open>{ id }\<close>.\<close>

definition delete_req :: "string \<Rightarrow> string \<Rightarrow> request" where
  "delete_req uid ident = body_req ''DELETE'' uid (JObj [(''id'', JStr ident)])"

definition daily :: "string \<Rightarrow> string \<Rightarrow> string \<Rightarrow> string \<Rightarrow> todo" where
  "daily ident uid ttl tod =
     (new_row uid ttl)\<lparr>todo_id := ident, timeOfDay := Some tod, recurrence := DAILY,
                       isTemplate := True\<rparr>"

definition generated :: "string \<Rightarrow> string \<Rightarrow> string \<Rightarrow> string \<Rightarrow> int \<Rightarrow> todo" where
  "generated ident uid ttl tpl due =
     (new_row uid ttl)\<lparr>todo_id := ident, dueAt := Some due, templateId := Some tpl\<rparr>"

definition oneoff :: "string \<Rightarrow> string \<Rightarrow> string \<Rightarrow> string \<Rightarrow> int \<Rightarrow> todo" where
  "oneoff ident uid ttl tod due =
     (new_row uid ttl)\<lparr>todo_id := ident, dueAt := Some due, timeOfDay := Some tod\<rparr>"

definition store_of :: "todo list \<Rightarrow> world" where
  "store_of rs = \<lparr>rows = rs, next_id = length rs, fuse = None\<rparr>"

text \<open>A template of user u1 with today's and yesterday's instance, a one-off, and a
  template of user u2.\<close>

definition series_store :: world where
  "series_store = store_of
     [daily ''c'' ''u1'' ''Stretch'' ''07:30'',
      generated ''cc'' ''u1'' ''Stretch'' ''c'' (1728000000000 + 27000000),
      generated ''ccc'' ''u1'' ''Stretch'' ''c'' (1727913600000 + 27000000),
      oneoff ''cccc'' ''u1'' ''Buy milk'' ''18:00'' (1728000000000 + 64800000),
      daily ''ccccc'' ''u2'' ''Read'' ''21:00'']"




text \<open>Requests served one after the other, each with its own reading of the clock.\<close>

fun run :: "(env \<times> request) list \<Rightarrow> world \<Rightarrow> world" where
  "run [] w = w"
| "run ((e, r) # calls) w = run calls (snd (handler e r w))"

text \<open>A template of user u1 with no instance yet, a one-off, and a template of user u2.\<close>

definition fresh_store :: world where
  "fresh_store = store_of
     [daily ''c'' ''u1'' ''Stretch'' ''07:30'',
      oneoff ''cc'' ''u1'' ''Buy milk'' ''18:00'' (1728000000000 + 64800000),
      daily ''ccc'' ''u2'' ''Read'' ''21:00'']"

text \<open>Two templates of user u1 with no instance yet, and a one-off.\<close>

definition two_templates :: world where
  "two_templates = store_of
     [daily ''c'' ''u1'' ''Stretch'' ''07:30'',
      daily ''cc'' ''u1'' ''Read'' ''21:00'',
      oneoff ''ccc'' ''u1'' ''Buy milk'' ''18:00'' (1728000000000 + 64800000)]"

text \<open>The table after user u1 has created a daily template and then set its
  \<open>timeOfDay\<close> to \<open>24:00\<close> by an update.\<close>

definition late_store :: world where
  "late_store = run
     [(env0, body_req ''POST'' ''u1'' (JObj [(''title'', JStr ''Stretch''), (''recurrence'', JStr ''DAILY'')])),
      (env0, body_req ''PUT'' ''u1'' (JObj [(''id'', JStr ''c''), (''timeOfDay'', JStr ''24:00'')]))]
     (store_of [])"

section \<open>Properties\<close>

subsection \<open>The due time of a generated instance\<close>

text \<open>
  C2 (the generated instance is due today at the template's time of day, 09:00 only
  when that is absent or malformed; it copies title, notes and tags). The code departs
  from this at the hour of midnight: line 39 reads \<open>hh || 9\<close>, and the hour 0 of a
  well-formed \<open>00:30\<close> is falsy. For the template \<open>Stretch\<close> at \<open>00:30\<close> the one
  instance the listing creates is due today at 09:30.
\<close>

theorem template_at_midnight_hour_due_at_nine:
  "map (\<lambda>r. (title r, templateId r, map_option (\<lambda>d. (start_of_day d, getHours d, getMinutes d)) (dueAt r)))
     (rows (snd (handler env0 (get_req ''u1'') (store_of [daily ''c'' ''u1'' ''Stretch'' ''00:30'']))))
   = [(''Stretch'', None, None), (''Stretch'', Some ''c'', Some (1728000000000, 9, 30))]"
  by code_simp

subsection \<open>The order of the listing\<close>

text \<open>
  C6 (the listing is sorted by the time of day of \<open>dueAt\<close>, not by the full date and
  time, rows without \<open>dueAt\<close> last). The comparator of line 60 subtracts \<open>getTime()\<close>,
  the full instant, and the listing is not restricted to today: with yesterday's
  instance of a 23:00 template in the table, the listing puts it before today's 09:00
  one-off. The hours of the rows returned are 23, 9, 23, then the row without \<open>dueAt\<close>.
\<close>

theorem listing_sorted_by_instant_not_time_of_day:
  "(case fst (handler env0 (get_req ''u1'')
       (store_of [daily ''c'' ''u1'' ''Stretch'' ''23:00'',
                  generated ''cc'' ''u1'' ''Stretch'' ''c'' (1728000000000 - 3600000),
                  (new_row ''u1'' ''Some day'')\<lparr>todo_id := ''ccc''\<rparr>,
                  oneoff ''cccc'' ''u1'' ''Buy milk'' ''09:00'' (1728000000000 + 9 * 3600000)])) of
      Resp code (Todos ts) \<Rightarrow> (code, map (\<lambda>r. (todo_id r, map_option getHours (dueAt r))) ts)
    | Resp code _ \<Rightarrow> (code, []))
   = (200, [(''cc'', Some 23), (''cccc'', Some 9), (''ccccc'', Some 23), (''ccc'', None)])"
  by code_simp

subsection \<open>Creation\<close>

text \<open>
  C8 (a one-off is created with \<open>dueAt\<close> equal to today at its time of day). The code
  departs from this whenever the minute, or the hour, of the time given is zero: line 94
  reads \<open>mm || now.getMinutes()\<close>, and the minute 0 of \<open>18:00\<close> is falsy. Created at
  14:37 with \<open>timeOfDay\<close> \<open>18:00\<close>, the one-off is due today at 18:37.
\<close>

theorem oneoff_on_the_hour_due_at_current_minute:
  "fst (handler env0
         (body_req ''POST'' ''u1'' (JObj [(''title'', JStr ''Buy milk''), (''timeOfDay'', JStr ''18:00'')]))
         (store_of []))
   = Resp 201 (OneTodo (oneoff ''c'' ''u1'' ''Buy milk'' ''18:00''
                          (1728000000000 + 18 * 3600000 + 37 * 60000)))"
  by code_simp

subsection \<open>Records of another user\<close>

text \<open>
  C9 (an operation of user A never reads or changes a record of user B, and an update
  or delete that names B's record fails as not found). The rows of B are indeed left
  alone, and the delete answers 404 after its own lookup; the update has no lookup, so
  the store's throw reaches the \<open>catch\<close> and the answer is 500, not 404.
\<close>

theorem update_of_foreign_record_answers_500:
  "handler env0
     (body_req ''PUT'' ''u1'' (JObj [(''id'', JStr ''c''), (''completed'', JBool True)]))
     (store_of [oneoff ''c'' ''u2'' ''Call home'' ''18:00'' (1728000000000 + 18 * 3600000)])
   = (Resp 500 (Error ''Internal server error''),
      store_of [oneoff ''c'' ''u2'' ''Call home'' ''18:00'' (1728000000000 + 18 * 3600000)])"
  by code_simp

subsection \<open>Deleting an instance whose template is gone\<close>

text \<open>
  C10: a delete of a generated instance whose template is not among the caller's rows
  deletes nothing. The deletion of the template throws, the answer is 500 and the
  table is as before, whatever else the store does. Identifiers are not empty, as
  every identifier the store assigns is.
\<close>

theorem delete_orphan_fails:
  assumes "session_user req = Some uid" and "uid \<noteq> []" and "http_method req = ''DELETE''"
    and "body_id (body req) = Some (JStr ident)"
    and "find (by_id ident uid) (rows w) = Some r"
    and "templateId r = Some tid" and "tid \<noteq> []"
    and "find (by_id tid uid) (rows w) = None"
  shows "fst (handler e req w) = Resp 500 (Error ''Internal server error'') \<and>
         rows (snd (handler e req w)) = rows w"
  using assms
  by (auto simp: handler_def do_DELETE_def bind_def findUnique_def delete_def store_call_def
      str_or_def throw_def ret_def split: option.splits nat.splits)

theorem delete_orphan_fails_witness:
  "find (by_id ''ccc'' ''u1'') (rows (store_of [generated ''ccc'' ''u1'' ''Stretch'' ''c'' 1728032400000]))
     = Some (generated ''ccc'' ''u1'' ''Stretch'' ''c'' 1728032400000) \<and>
   find (by_id ''c'' ''u1'') (rows (store_of [generated ''ccc'' ''u1'' ''Stretch'' ''c'' 1728032400000]))
     = None \<and>
   fst (handler env0 (delete_req ''u1'' ''ccc'')
          (store_of [generated ''ccc'' ''u1'' ''Stretch'' ''c'' 1728032400000]))
     = Resp 500 (Error ''Internal server error'') \<and>
   rows (snd (handler env0 (delete_req ''u1'' ''ccc'')
          (store_of [generated ''ccc'' ''u1'' ''Stretch'' ''c'' 1728032400000])))
     = [generated ''ccc'' ''u1'' ''Stretch'' ''c'' 1728032400000]"
proof -
  let ?i = "generated ''ccc'' ''u1'' ''Stretch'' ''c'' 1728032400000"
  have a: "session_user (delete_req ''u1'' ''ccc'') = Some ''u1''" "''u1'' \<noteq> []"
    "http_method (delete_req ''u1'' ''ccc'') = ''DELETE''"
    "body_id (body (delete_req ''u1'' ''ccc'')) = Some (JStr ''ccc'')"
    by (simp_all add: delete_req_def body_req_def body_id_def field_def falsy_def)
  have b: "find (by_id ''ccc'' ''u1'') (rows (store_of [?i])) = Some ?i"
    by (simp add: store_of_def by_id_def generated_def new_row_def)
  have c: "templateId ?i = Some ''c''" "''c'' \<noteq> []"
    by (simp_all add: generated_def)
  have d: "find (by_id ''c'' ''u1'') (rows (store_of [?i])) = None"
    by (simp add: store_of_def by_id_def generated_def new_row_def)
  from delete_orphan_fails [OF a b c d, of env0] b d show ?thesis
    by (simp add: store_of_def)
qed

subsection \<open>The cascade of a delete\<close>

lemmas io_defs = bind_def ret_def throw_def store_call_def

lemma delete_req_simps:
  "session_user (delete_req uid ident) = Some uid"
  "http_method (delete_req uid ident) = ''DELETE''"
  "body_id (body (delete_req uid ident)) = (if ident = [] then None else Some (JStr ident))"
  by (simp_all add: delete_req_def body_req_def body_id_def field_def falsy_def)

lemma handler_DELETE:
  assumes "uid \<noteq> []"
  shows "handler e (delete_req uid ident) w =
     (case do_DELETE uid (body (delete_req uid ident)) w of
        (Inl err, w') \<Rightarrow> (Resp 500 (Error ''Internal server error''), w')
      | (Inr r, w') \<Rightarrow> (r, w'))"
  using assms by (simp add: handler_def delete_req_simps str_or_def)

lemma do_DELETE_instance:
  assumes "ident \<noteq> []" "fuse w = None" "find (by_id ident uid) (rows w) = Some R"
    "templateId R = Some tid" "tid \<noteq> []" "find (by_id tid uid) (rows w) \<noteq> None"
  shows "do_DELETE uid (body (delete_req uid ident)) w =
     (Inr (Resp 200 (Message ''Deleted'')),
      w\<lparr>rows := filter (\<lambda>r. \<not> (userId r = uid \<and> (todo_id r = tid \<or> templateId r = Some tid))) (rows w)\<rparr>)"
proof -
  have "filter (\<lambda>r. \<not> (templateId r = Some tid \<and> userId r = uid)) (filter (\<lambda>x. \<not> by_id tid uid x) (rows w))
      = filter (\<lambda>r. \<not> (userId r = uid \<and> (todo_id r = tid \<or> templateId r = Some tid))) (rows w)"
    by (auto simp: by_id_def intro: filter_cong)
  with assms show ?thesis
    by (auto simp: do_DELETE_def delete_req_simps io_defs findUnique_def delete_def deleteMany_def str_or_def)
qed

lemma do_DELETE_template:
  assumes "ident \<noteq> []" "fuse w = None" "find (by_id ident uid) (rows w) = Some R"
    "str_or (templateId R) [] = []" "isTemplate R"
  shows "do_DELETE uid (body (delete_req uid ident)) w =
     (Inr (Resp 200 (Message ''Deleted'')),
      w\<lparr>rows := filter (\<lambda>r. \<not> (userId r = uid \<and> (todo_id r = ident \<or> templateId r = Some ident))) (rows w)\<rparr>)"
proof -
  have "filter (\<lambda>r. \<not> ((todo_id r = ident \<or> templateId r = Some ident) \<and> userId r = uid)) (rows w)
      = filter (\<lambda>r. \<not> (userId r = uid \<and> (todo_id r = ident \<or> templateId r = Some ident))) (rows w)"
    by (auto intro: filter_cong)
  with assms show ?thesis
    by (simp add: do_DELETE_def delete_req_simps io_defs findUnique_def deleteMany_def)
qed

lemma do_DELETE_oneoff:
  assumes "ident \<noteq> []" "fuse w = None" "find (by_id ident uid) (rows w) = Some R"
    "str_or (templateId R) [] = []" "\<not> isTemplate R"
  shows "do_DELETE uid (body (delete_req uid ident)) w =
     (Inr (Resp 200 (Message ''Deleted'')), w\<lparr>rows := filter (\<lambda>r. \<not> by_id ident uid r) (rows w)\<rparr>)"
  using assms
  by (simp add: do_DELETE_def delete_req_simps io_defs findUnique_def delete_def)

lemma filter_unique_remove1:
  "distinct (map todo_id rs) \<Longrightarrow> find (by_id ident uid) rs = Some R \<Longrightarrow>
   filter (\<lambda>r. \<not> by_id ident uid r) rs = remove1 R rs"
proof (induction rs)
  case Nil
  then show ?case by simp
next
  case (Cons a rs)
  show ?case
  proof (cases "by_id ident uid a")
    case True
    with Cons.prems have "a = R" by simp
    moreover have "\<forall>x\<in>set rs. \<not> by_id ident uid x"
    proof
      fix x assume "x \<in> set rs"
      then have "todo_id x \<in> todo_id ` set rs" by (rule imageI)
      moreover from Cons.prems have "todo_id a \<notin> todo_id ` set rs" by simp
      ultimately have "todo_id x \<noteq> todo_id a" by metis
      with True show "\<not> by_id ident uid x" by (simp add: by_id_def)
    qed
    then have "filter (\<lambda>r. \<not> by_id ident uid r) rs = rs"
      by (simp add: filter_id_conv)
    ultimately show ?thesis using True by simp
  next
    case False
    with Cons.prems have f: "find (by_id ident uid) rs = Some R" by simp
    then have "by_id ident uid R" by (auto simp: find_Some_iff)
    with False have "a \<noteq> R" by auto
    with Cons False f show ?thesis by simp
  qed
qed

lemmas example_defs = series_store_def store_of_def daily_def generated_def oneoff_def new_row_def
  by_id_def str_or_def

text \<open>
  C3 as the code has it: a delete of a record \<open>R\<close> of the caller, when no store call
  fails. If \<open>R\<close> names a template and that template is among the caller's rows, the
  template and every row of the caller with that \<open>templateId\<close> go, \<open>R\<close> among them, and
  nothing else. Otherwise, if \<open>R\<close> is a template, \<open>R\<close> and every row of the caller
  whose \<open>templateId\<close> is the id of \<open>R\<close> go. Otherwise only the rows of the caller with
  the id of \<open>R\<close> go, which is \<open>R\<close> alone when ids are unique. Deleting a template
  (with no \<open>templateId\<close> of its own) and deleting one of its instances give the same
  answer and the same table.
\<close>

theorem delete_cascade:
  assumes "uid \<noteq> []" and "ident \<noteq> []" and "fuse w = None"
    and "find (by_id ident uid) (rows w) = Some R"
  shows
   "(\<forall>tid. templateId R = Some tid \<and> tid \<noteq> [] \<and> find (by_id tid uid) (rows w) \<noteq> None \<longrightarrow>
       handler e (delete_req uid ident) w =
         (Resp 200 (Message ''Deleted''),
          w\<lparr>rows := filter (\<lambda>r. \<not> (userId r = uid \<and> (todo_id r = tid \<or> templateId r = Some tid)))
                      (rows w)\<rparr>)) \<and>
    (str_or (templateId R) [] = [] \<and> isTemplate R \<longrightarrow>
       handler e (delete_req uid ident) w =
         (Resp 200 (Message ''Deleted''),
          w\<lparr>rows := filter (\<lambda>r. \<not> (userId r = uid \<and> (todo_id r = ident \<or> templateId r = Some ident)))
                      (rows w)\<rparr>)) \<and>
    (str_or (templateId R) [] = [] \<and> \<not> isTemplate R \<longrightarrow>
       handler e (delete_req uid ident) w =
         (Resp 200 (Message ''Deleted''), w\<lparr>rows := filter (\<lambda>r. \<not> by_id ident uid r) (rows w)\<rparr>) \<and>
       (distinct (map todo_id (rows w)) \<longrightarrow>
          filter (\<lambda>r. \<not> by_id ident uid r) (rows w) = remove1 R (rows w))) \<and>
    (\<forall>tid T. templateId R = Some tid \<and> tid \<noteq> [] \<and> find (by_id tid uid) (rows w) = Some T \<and>
         isTemplate T \<and> templateId T = None \<longrightarrow>
       handler e (delete_req uid tid) w = handler e (delete_req uid ident) w)"
proof (intro conjI allI impI)
  fix tid
  assume "templateId R = Some tid \<and> tid \<noteq> [] \<and> find (by_id tid uid) (rows w) \<noteq> None"
  with assms show "handler e (delete_req uid ident) w =
         (Resp 200 (Message ''Deleted''),
          w\<lparr>rows := filter (\<lambda>r. \<not> (userId r = uid \<and> (todo_id r = tid \<or> templateId r = Some tid)))
                      (rows w)\<rparr>)"
    by (simp add: handler_DELETE do_DELETE_instance)
next
  assume "str_or (templateId R) [] = [] \<and> isTemplate R"
  with assms show "handler e (delete_req uid ident) w =
         (Resp 200 (Message ''Deleted''),
          w\<lparr>rows := filter (\<lambda>r. \<not> (userId r = uid \<and> (todo_id r = ident \<or> templateId r = Some ident)))
                      (rows w)\<rparr>)"
    by (simp add: handler_DELETE do_DELETE_template)
next
  assume "str_or (templateId R) [] = [] \<and> \<not> isTemplate R"
  with assms show "handler e (delete_req uid ident) w =
         (Resp 200 (Message ''Deleted''), w\<lparr>rows := filter (\<lambda>r. \<not> by_id ident uid r) (rows w)\<rparr>)"
    by (simp add: handler_DELETE do_DELETE_oneoff)
next
  assume "distinct (map todo_id (rows w))"
  with assms show "filter (\<lambda>r. \<not> by_id ident uid r) (rows w) = remove1 R (rows w)"
    by (simp add: filter_unique_remove1)
next
  fix tid T
  assume h: "templateId R = Some tid \<and> tid \<noteq> [] \<and> find (by_id tid uid) (rows w) = Some T \<and>
         isTemplate T \<and> templateId T = None"
  then have "str_or (templateId T) [] = []" by (simp add: str_or_def)
  with h assms have "do_DELETE uid (body (delete_req uid tid)) w = do_DELETE uid (body (delete_req uid ident)) w"
    by (simp add: do_DELETE_instance [where R = R and tid = tid] do_DELETE_template [where R = T])
  with assms show "handler e (delete_req uid tid) w = handler e (delete_req uid ident) w"
    by (simp add: handler_DELETE)
qed

theorem delete_cascade_witness:
  "find (by_id ''cc'' ''u1'') (rows series_store)
     = Some (generated ''cc'' ''u1'' ''Stretch'' ''c'' (1728000000000 + 27000000)) \<and>
   handler env0 (delete_req ''u1'' ''cc'') series_store
     = (Resp 200 (Message ''Deleted''),
        series_store\<lparr>rows := [oneoff ''cccc'' ''u1'' ''Buy milk'' ''18:00'' (1728000000000 + 64800000),
                               daily ''ccccc'' ''u2'' ''Read'' ''21:00'']\<rparr>) \<and>
   handler env0 (delete_req ''u1'' ''c'') series_store
     = handler env0 (delete_req ''u1'' ''cc'') series_store"
proof -
  let ?R = "generated ''cc'' ''u1'' ''Stretch'' ''c'' (1728000000000 + 27000000)"
  have h: "''u1'' \<noteq> []" "''cc'' \<noteq> []" "fuse series_store = None"
    "find (by_id ''cc'' ''u1'') (rows series_store) = Some ?R"
    by (simp_all add: example_defs)
  from delete_cascade [OF h, of env0] h(4) show ?thesis
    by (simp add: example_defs)
qed

text \<open>
  C3 as stated fails where the template named by \<open>R\<close> is not among the caller's rows:
  nothing is removed, \<open>R\<close> and its sibling stay.
\<close>

theorem delete_of_orphan_removes_nothing:
  "find (by_id ''cc'' ''u1'')
     (rows (store_of [generated ''cc'' ''u1'' ''Stretch'' ''c'' (1728000000000 + 27000000),
                      generated ''ccc'' ''u1'' ''Stretch'' ''c'' (1727913600000 + 27000000)]))
     = Some (generated ''cc'' ''u1'' ''Stretch'' ''c'' (1728000000000 + 27000000)) \<and>
   handler env0 (delete_req ''u1'' ''cc'')
     (store_of [generated ''cc'' ''u1'' ''Stretch'' ''c'' (1728000000000 + 27000000),
                generated ''ccc'' ''u1'' ''Stretch'' ''c'' (1727913600000 + 27000000)])
     = (Resp 500 (Error ''Internal server error''),
        store_of [generated ''cc'' ''u1'' ''Stretch'' ''c'' (1728000000000 + 27000000),
                  generated ''ccc'' ''u1'' ''Stretch'' ''c'' (1727913600000 + 27000000)])"
  by code_simp

text \<open>
  C4 as the code has it: the cascade is a sequence of store calls without a
  transaction. With \<open>R\<close> found among the caller's rows: if the lookup or the first
  deletion throws, the answer is 500 and the table is unchanged; if \<open>R\<close> is a generated
  instance and the second deletion throws, the answer is 500, the template is gone and
  every instance is still there; otherwise the answer is 200 and the cascade is complete.
  For a template or a one-off there is one deleting call, and a throw leaves the table
  unchanged.
\<close>

theorem delete_failure_outcomes:
  assumes "uid \<noteq> []" and "ident \<noteq> []"
    and "find (by_id ident uid) (rows w) = Some R"
  shows
   "(\<forall>tid. templateId R = Some tid \<and> tid \<noteq> [] \<and> find (by_id tid uid) (rows w) \<noteq> None \<longrightarrow>
       (if fuse w = Some 0 \<or> fuse w = Some 1 then
          fst (handler e (delete_req uid ident) w) = Resp 500 (Error ''Internal server error'') \<and>
          rows (snd (handler e (delete_req uid ident) w)) = rows w
        else if fuse w = Some 2 then
          fst (handler e (delete_req uid ident) w) = Resp 500 (Error ''Internal server error'') \<and>
          rows (snd (handler e (delete_req uid ident) w)) = filter (\<lambda>r. \<not> by_id tid uid r) (rows w)
        else
          fst (handler e (delete_req uid ident) w) = Resp 200 (Message ''Deleted'') \<and>
          rows (snd (handler e (delete_req uid ident) w)) =
            filter (\<lambda>r. \<not> (userId r = uid \<and> (todo_id r = tid \<or> templateId r = Some tid))) (rows w))) \<and>
    (str_or (templateId R) [] = [] \<longrightarrow>
       (if fuse w = Some 0 \<or> fuse w = Some 1 then
          fst (handler e (delete_req uid ident) w) = Resp 500 (Error ''Internal server error'') \<and>
          rows (snd (handler e (delete_req uid ident) w)) = rows w
        else
          fst (handler e (delete_req uid ident) w) = Resp 200 (Message ''Deleted'') \<and>
          rows (snd (handler e (delete_req uid ident) w)) =
            (if isTemplate R
             then filter (\<lambda>r. \<not> (userId r = uid \<and> (todo_id r = ident \<or> templateId r = Some ident))) (rows w)
             else filter (\<lambda>r. \<not> by_id ident uid r) (rows w))))"
proof (intro conjI allI impI)
  fix tid
  assume h: "templateId R = Some tid \<and> tid \<noteq> [] \<and> find (by_id tid uid) (rows w) \<noteq> None"
  have f: "filter (\<lambda>r. \<not> (templateId r = Some tid \<and> userId r = uid)) (filter (\<lambda>x. \<not> by_id tid uid x) (rows w))
      = filter (\<lambda>r. \<not> (userId r = uid \<and> (todo_id r = tid \<or> templateId r = Some tid))) (rows w)"
    by (auto simp: by_id_def intro: filter_cong)
  consider "fuse w = None" | "fuse w = Some 0" | "fuse w = Some 1" | "fuse w = Some 2"
    | k where "fuse w = Some (Suc (Suc (Suc k)))"
    by (metis not0_implies_Suc numeral_2_eq_2 One_nat_def option.exhaust)
  then show "if fuse w = Some 0 \<or> fuse w = Some 1 then
          fst (handler e (delete_req uid ident) w) = Resp 500 (Error ''Internal server error'') \<and>
          rows (snd (handler e (delete_req uid ident) w)) = rows w
        else if fuse w = Some 2 then
          fst (handler e (delete_req uid ident) w) = Resp 500 (Error ''Internal server error'') \<and>
          rows (snd (handler e (delete_req uid ident) w)) = filter (\<lambda>r. \<not> by_id tid uid r) (rows w)
        else
          fst (handler e (delete_req uid ident) w) = Resp 200 (Message ''Deleted'') \<and>
          rows (snd (handler e (delete_req uid ident) w)) =
            filter (\<lambda>r. \<not> (userId r = uid \<and> (todo_id r = tid \<or> templateId r = Some tid))) (rows w)"
  proof cases
    case 1
    with assms h f show ?thesis
      by (auto simp: handler_DELETE do_DELETE_def delete_req_simps io_defs findUnique_def delete_def
          deleteMany_def str_or_def)
  next
    case 2
    with assms h show ?thesis
      by (auto simp: handler_DELETE do_DELETE_def delete_req_simps io_defs findUnique_def)
  next
    case 3
    with assms h show ?thesis
      by (auto simp: handler_DELETE do_DELETE_def delete_req_simps io_defs findUnique_def delete_def
          str_or_def)
  next
    case 4
    then have "fuse w = Some (Suc (Suc 0))" by (simp add: numeral_2_eq_2)
    with assms h 4 show ?thesis
      by (auto simp: handler_DELETE do_DELETE_def delete_req_simps io_defs findUnique_def delete_def
          deleteMany_def str_or_def)
  next
    case 5
    with assms h f show ?thesis
      by (auto simp: handler_DELETE do_DELETE_def delete_req_simps io_defs findUnique_def delete_def
          deleteMany_def str_or_def)
  qed
next
  assume h: "str_or (templateId R) [] = []"
  have f: "filter (\<lambda>r. \<not> ((todo_id r = ident \<or> templateId r = Some ident) \<and> userId r = uid)) (rows w)
      = filter (\<lambda>r. \<not> (userId r = uid \<and> (todo_id r = ident \<or> templateId r = Some ident))) (rows w)"
    by (auto intro: filter_cong)
  consider "fuse w = None" | "fuse w = Some 0" | "fuse w = Some 1"
    | k where "fuse w = Some (Suc (Suc k))"
    by (metis not0_implies_Suc One_nat_def option.exhaust)
  then show "if fuse w = Some 0 \<or> fuse w = Some 1 then
          fst (handler e (delete_req uid ident) w) = Resp 500 (Error ''Internal server error'') \<and>
          rows (snd (handler e (delete_req uid ident) w)) = rows w
        else
          fst (handler e (delete_req uid ident) w) = Resp 200 (Message ''Deleted'') \<and>
          rows (snd (handler e (delete_req uid ident) w)) =
            (if isTemplate R
             then filter (\<lambda>r. \<not> (userId r = uid \<and> (todo_id r = ident \<or> templateId r = Some ident))) (rows w)
             else filter (\<lambda>r. \<not> by_id ident uid r) (rows w))"
  proof cases
    case 1
    with assms h f show ?thesis
      by (auto simp: handler_DELETE do_DELETE_def delete_req_simps io_defs findUnique_def delete_def
          deleteMany_def)
  next
    case 2
    with assms h show ?thesis
      by (auto simp: handler_DELETE do_DELETE_def delete_req_simps io_defs findUnique_def)
  next
    case 3
    with assms h show ?thesis
      by (auto simp: handler_DELETE do_DELETE_def delete_req_simps io_defs findUnique_def delete_def
          deleteMany_def)
  next
    case 4
    with assms h f show ?thesis
      by (auto simp: handler_DELETE do_DELETE_def delete_req_simps io_defs findUnique_def delete_def
          deleteMany_def)
  qed
qed

theorem delete_failure_outcomes_witness:
  "find (by_id ''cc'' ''u1'') (rows (series_store\<lparr>fuse := Some 2\<rparr>))
     = Some (generated ''cc'' ''u1'' ''Stretch'' ''c'' (1728000000000 + 27000000)) \<and>
   fst (handler env0 (delete_req ''u1'' ''cc'') (series_store\<lparr>fuse := Some 2\<rparr>))
     = Resp 500 (Error ''Internal server error'') \<and>
   rows (snd (handler env0 (delete_req ''u1'' ''cc'') (series_store\<lparr>fuse := Some 2\<rparr>)))
     = [generated ''cc'' ''u1'' ''Stretch'' ''c'' (1728000000000 + 27000000),
        generated ''ccc'' ''u1'' ''Stretch'' ''c'' (1727913600000 + 27000000),
        oneoff ''cccc'' ''u1'' ''Buy milk'' ''18:00'' (1728000000000 + 64800000),
        daily ''ccccc'' ''u2'' ''Read'' ''21:00'']"
proof -
  let ?R = "generated ''cc'' ''u1'' ''Stretch'' ''c'' (1728000000000 + 27000000)"
  have h: "''u1'' \<noteq> []" "''cc'' \<noteq> []"
    "find (by_id ''cc'' ''u1'') (rows (series_store\<lparr>fuse := Some 2\<rparr>)) = Some ?R"
    by (simp_all add: example_defs)
  from delete_failure_outcomes [OF h, of env0] h(3) show ?thesis
    by (simp add: example_defs)
qed

text \<open>
  C4 as stated fails when the store throws on the third call of a delete of an instance:
  the answer is 500, and the table has lost the template and kept both instances.
\<close>

theorem delete_not_atomic:
  "handler env0 (delete_req ''u1'' ''cc'') (series_store\<lparr>fuse := Some 2\<rparr>)
   = (Resp 500 (Error ''Internal server error''),
      \<lparr>rows = [generated ''cc'' ''u1'' ''Stretch'' ''c'' (1728000000000 + 27000000),
               generated ''ccc'' ''u1'' ''Stretch'' ''c'' (1727913600000 + 27000000),
               oneoff ''cccc'' ''u1'' ''Buy milk'' ''18:00'' (1728000000000 + 64800000),
               daily ''ccccc'' ''u2'' ''Read'' ''21:00''],
       next_id = 5, fuse = Some 0\<rparr>)"
  by code_simp

subsection \<open>What each store call does to the table\<close>

lemma store_call_rows: "store_call w = (x, w') \<Longrightarrow> rows w' = rows w"
  by (auto simp: store_call_def split: option.splits nat.splits)

lemma findMany_rows: "findMany wh tk w = (x, w') \<Longrightarrow> rows w' = rows w"
  by (auto simp: findMany_def io_defs split: option.splits nat.splits)

lemma findFirst_rows: "findFirst wh w = (x, w') \<Longrightarrow> rows w' = rows w"
  by (auto simp: findFirst_def io_defs split: option.splits nat.splits)

lemma findUnique_rows: "findUnique wh w = (x, w') \<Longrightarrow> rows w' = rows w"
  by (auto simp: findUnique_def io_defs split: option.splits nat.splits)

lemma create_rows:
  "create d w = (x, w') \<Longrightarrow>
   rows w' = rows w \<or> rows w' = rows w @ [d\<lparr>todo_id := gen_id (next_id w)\<rparr>]"
  by (auto simp: create_def io_defs Let_def split: option.splits nat.splits)

lemma update_rows:
  "update wh f w = (x, w') \<Longrightarrow>
   rows w' = rows w \<or> rows w' = map (\<lambda>r. if wh r then f r else r) (rows w)"
  by (auto simp: update_def io_defs split: option.splits nat.splits)

lemma delete_rows:
  "delete wh w = (x, w') \<Longrightarrow> rows w' = rows w \<or> rows w' = filter (\<lambda>r. \<not> wh r) (rows w)"
  by (auto simp: delete_def io_defs split: option.splits nat.splits)

lemma deleteMany_rows:
  "deleteMany wh w = (x, w') \<Longrightarrow> rows w' = rows w \<or> rows w' = filter (\<lambda>r. \<not> wh r) (rows w)"
  by (auto simp: deleteMany_def io_defs split: option.splits nat.splits)

lemma bindE:
  assumes "bind m f w = (x, w')"
  obtains e where "m w = (Inl e, w')" "x = Inl e"
  | y w1 where "m w = (Inr y, w1)" "f y w1 = (x, w')"
  using assms by (auto simp: bind_def split: prod.splits sum.splits)















subsection \<open>Materialization\<close>

lemma find_filter_hd:
  "find P xs = (case filter P xs of [] \<Rightarrow> None | x # _ \<Rightarrow> Some x)"
  by (induction xs) auto

lemma ensure_instance_present:
  assumes "fuse w = None" "find (instance_today uid s e (todo_id tpl)) (rows w) = Some i"
  shows "ensure_instance uid s e tpl w = (Inr (), w)"
  using assms by (simp add: ensure_instance_def findFirst_def io_defs)

lemma ensure_instance_absent:
  assumes "fuse w = None" "find (instance_today uid s e (todo_id tpl)) (rows w) = None"
  shows "ensure_instance uid s e tpl w =
     (Inr (), w\<lparr>rows := rows w @ [(new_row uid (title tpl))
                   \<lparr>notes' := notes' tpl,
                    dueAt := Some (template_due s tpl),
                    tags := tags tpl,
                    templateId := Some (todo_id tpl),
                    isTemplate := False,
                    recurrence := NONE,
                    todo_id := gen_id (next_id w)\<rparr>],
                next_id := Suc (next_id w)\<rparr>)"
  using assms by (simp add: ensure_instance_def findFirst_def create_def io_defs Let_def)

lemma handler_GET_single:
  assumes "uid \<noteq> []" "session_user r = Some uid" "http_method r = ''GET''" "fuse w = None"
    "filter (\<lambda>r. userId r = uid \<and> isTemplate r \<and> recurrence r = DAILY) (rows w) = [T]"
  shows "snd (handler e r w) = snd (ensure_instance uid (start_of_day (now e)) (end_of_day (now e)) T w)"
proof (cases "find (instance_today uid (start_of_day (now e)) (end_of_day (now e)) (todo_id T)) (rows w)")
  case None
  from ensure_instance_absent [OF assms(4) None] assms show ?thesis
    by (simp add: handler_def str_or_def do_GET_def findMany_def io_defs
        split: option.splits)
next
  case (Some i)
  from ensure_instance_present [OF assms(4) Some] assms show ?thesis
    by (simp add: handler_def str_or_def do_GET_def findMany_def io_defs
        split: option.splits)
qed

lemma end_of_day_same: "start_of_day t = start_of_day t' \<Longrightarrow> end_of_day t = end_of_day t'"
  by (simp add: end_of_day_def)

lemma run_stable:
  assumes "uid \<noteq> []" "fuse w = None"
    "filter (\<lambda>r. userId r = uid \<and> isTemplate r \<and> recurrence r = DAILY) (rows w) = [T]"
    "find (instance_today uid (start_of_day t) (end_of_day t) (todo_id T)) (rows w) = Some i"
    "\<forall>c\<in>set calls. session_user (snd c) = Some uid \<and> http_method (snd c) = ''GET'' \<and>
        start_of_day (now (fst c)) = start_of_day t"
  shows "run calls w = w"
  using assms(5)
proof (induction calls)
  case Nil
  then show ?case by simp
next
  case (Cons c calls)
  obtain e r where c: "c = (e, r)" by (cases c)
  with Cons.prems have r: "session_user r = Some uid" "http_method r = ''GET''"
    and d: "start_of_day (now e) = start_of_day t" by simp_all
  from d have d': "end_of_day (now e) = end_of_day t" by (rule end_of_day_same)
  from handler_GET_single [OF assms(1) r assms(2,3), of e] d d'
    ensure_instance_present [OF assms(2,4)]
  have "snd (handler e r w) = w" by simp
  with Cons c show ?case by simp
qed

text \<open>
  C1 as the code has it: a user has exactly one daily template \<open>T\<close> and no instance of
  it for today, and the due time the materializer computes for \<open>T\<close> lies in today's
  window. Then after any one or more listings by that user on that day, none of whose
  store calls fails, the table holds exactly one instance of \<open>T\<close> for today: the rows
  are the old ones and that instance, which is no template, names \<open>T\<close> and is due at
  the computed time.
\<close>

theorem list_materializes_once:
  assumes "uid \<noteq> []" and "fuse w = None"
    and "filter (\<lambda>r. userId r = uid \<and> isTemplate r \<and> recurrence r = DAILY) (rows w) = [T]"
    and "filter (instance_today uid (start_of_day t) (end_of_day t) (todo_id T)) (rows w) = []"
    and "start_of_day t \<le> template_due (start_of_day t) T"
    and "template_due (start_of_day t) T \<le> end_of_day t"
    and "calls \<noteq> []"
    and "\<forall>c\<in>set calls. session_user (snd c) = Some uid \<and> http_method (snd c) = ''GET'' \<and>
           start_of_day (now (fst c)) = start_of_day t"
  shows "\<exists>i. filter (instance_today uid (start_of_day t) (end_of_day t) (todo_id T)) (rows (run calls w)) = [i] \<and>
             \<not> isTemplate i \<and> templateId i = Some (todo_id T) \<and>
             dueAt i = Some (template_due (start_of_day t) T) \<and>
             rows (run calls w) = rows w @ [i]"
proof -
  let ?s = "start_of_day t" and ?e = "end_of_day t"
  let ?i = "(new_row uid (title T))
                   \<lparr>notes' := notes' T,
                    dueAt := Some (template_due ?s T),
                    tags := tags T,
                    templateId := Some (todo_id T),
                    isTemplate := False,
                    recurrence := NONE,
                    todo_id := gen_id (next_id w)\<rparr>"
  let ?w1 = "w\<lparr>rows := rows w @ [?i], next_id := Suc (next_id w)\<rparr>"
  from assms(7) obtain c rest where calls: "calls = c # rest" by (cases calls) auto
  obtain e r where c: "c = (e, r)" by (cases c)
  with calls assms(8) have r: "session_user r = Some uid" "http_method r = ''GET''"
    and d: "start_of_day (now e) = ?s" by simp_all
  from d have d': "end_of_day (now e) = ?e" by (rule end_of_day_same)
  from assms(4) have none: "find (instance_today uid ?s ?e (todo_id T)) (rows w) = None"
    by (simp add: find_filter_hd)
  from handler_GET_single [OF assms(1) r assms(2,3), of e] d d'
    ensure_instance_absent [OF assms(2) none]
  have first: "snd (handler e r w) = ?w1" by simp
  have it: "instance_today uid ?s ?e (todo_id T) ?i"
    using assms(5,6) by (simp add: instance_today_def new_row_def)
  have f1: "fuse ?w1 = None" using assms(2) by simp
  have tp: "filter (\<lambda>r. userId r = uid \<and> isTemplate r \<and> recurrence r = DAILY) (rows ?w1) = [T]"
    using assms(3) by (simp add: new_row_def)
  have fl: "filter (instance_today uid ?s ?e (todo_id T)) (rows ?w1) = [?i]"
    using assms(4) it by simp
  then have fnd: "find (instance_today uid ?s ?e (todo_id T)) (rows ?w1) = Some ?i"
    by (simp add: find_filter_hd [of _ "rows w @ _"] del: filter_append)
  from calls assms(8) have rest: "\<forall>c\<in>set rest. session_user (snd c) = Some uid \<and>
      http_method (snd c) = ''GET'' \<and> start_of_day (now (fst c)) = ?s" by simp
  from run_stable [OF assms(1) f1 tp fnd rest] calls c first
  have "run calls w = ?w1" by simp
  with fl show ?thesis by (simp add: new_row_def)
qed

theorem list_materializes_once_witness:
  "filter (\<lambda>r. userId r = ''u1'' \<and> isTemplate r \<and> recurrence r = DAILY) (rows fresh_store)
     = [daily ''c'' ''u1'' ''Stretch'' ''07:30''] \<and>
   filter (instance_today ''u1'' (start_of_day (now env0)) (end_of_day (now env0)) ''c'') (rows fresh_store)
     = [] \<and>
   template_due (start_of_day (now env0)) (daily ''c'' ''u1'' ''Stretch'' ''07:30'')
     = 1728000000000 + 7 * 3600000 + 30 * 60000 \<and>
   filter (instance_today ''u1'' (start_of_day (now env0)) (end_of_day (now env0)) ''c'')
     (rows (run [(env0, get_req ''u1''), (env0, get_req ''u1''), (env0, get_req ''u1'')] fresh_store))
     = [generated ''cccc'' ''u1'' ''Stretch'' ''c'' (1728000000000 + 7 * 3600000 + 30 * 60000)] \<and>
   rows (run [(env0, get_req ''u1''), (env0, get_req ''u1''), (env0, get_req ''u1'')] fresh_store)
     = rows fresh_store @ [generated ''cccc'' ''u1'' ''Stretch'' ''c'' (1728000000000 + 7 * 3600000 + 30 * 60000)]"
proof -
  let ?T = "daily ''c'' ''u1'' ''Stretch'' ''07:30''"
  let ?t = "now env0"
  let ?calls = "[(env0, get_req ''u1''), (env0, get_req ''u1''), (env0, get_req ''u1'')]"
  have due: "template_due (start_of_day ?t) ?T = 1728000000000 + 7 * 3600000 + 30 * 60000"
    by code_simp
  have h: "''u1'' \<noteq> []" "fuse fresh_store = None"
    "filter (\<lambda>r. userId r = ''u1'' \<and> isTemplate r \<and> recurrence r = DAILY) (rows fresh_store) = [?T]"
    "filter (instance_today ''u1'' (start_of_day ?t) (end_of_day ?t) (todo_id ?T)) (rows fresh_store) = []"
    by (simp_all add: fresh_store_def example_defs instance_today_def)
  have w: "start_of_day ?t \<le> template_due (start_of_day ?t) ?T"
    "template_due (start_of_day ?t) ?T \<le> end_of_day ?t"
    by code_simp+
  have c: "?calls \<noteq> []"
    "\<forall>c\<in>set ?calls. session_user (snd c) = Some ''u1'' \<and> http_method (snd c) = ''GET'' \<and>
           start_of_day (now (fst c)) = start_of_day ?t"
    by (simp_all add: get_req_def)
  from list_materializes_once [OF h w c] obtain i where
    i: "filter (instance_today ''u1'' (start_of_day ?t) (end_of_day ?t) (todo_id ?T))
          (rows (run ?calls fresh_store)) = [i]"
      "rows (run ?calls fresh_store) = rows fresh_store @ [i]"
    by blast
  have "rows (run ?calls fresh_store)
      = rows fresh_store @ [generated ''cccc'' ''u1'' ''Stretch'' ''c'' (1728000000000 + 7 * 3600000 + 30 * 60000)]"
    by code_simp
  with i(2) have "i = generated ''cccc'' ''u1'' ''Stretch'' ''c'' (1728000000000 + 7 * 3600000 + 30 * 60000)"
    by simp
  moreover have "todo_id ?T = ''c''" by (simp add: daily_def)
  ultimately show ?thesis using i h(3,4) due by simp
qed

text \<open>
  C1 as stated fails for a template whose time of day does not lie in a day. The update
  accepts any string as \<open>timeOfDay\<close>; with \<open>24:00\<close> the instance is due at tomorrow's
  midnight, outside the window the next listing looks in, so each listing adds another
  instance and none of them is in today's window.
\<close>

theorem late_template_materializes_every_time:
  "map (\<lambda>r. (todo_id r, isTemplate r, recurrence r, timeOfDay r)) 
     (filter (\<lambda>r. userId r = ''u1'' \<and> isTemplate r \<and> recurrence r = DAILY) (rows late_store))
     = [(''c'', True, DAILY, Some ''24:00'')] \<and>
   filter (instance_today ''u1'' (start_of_day (now env0)) (end_of_day (now env0)) ''c'') (rows late_store)
     = [] \<and>
   map (\<lambda>r. (todo_id r, templateId r, map_option (\<lambda>d. d - start_of_day (now env0)) (dueAt r)))
     (rows (run [(env0, get_req ''u1''), (env0, get_req ''u1'')] late_store))
     = [(''c'', None, Some 86400000), (''cc'', Some ''c'', Some 86400000),
        (''ccc'', Some ''c'', Some 86400000)] \<and>
   filter (instance_today ''u1'' (start_of_day (now env0)) (end_of_day (now env0)) ''c'')
     (rows (run [(env0, get_req ''u1''), (env0, get_req ''u1'')] late_store))
     = []"
  by code_simp

subsection \<open>A failure during reconciliation\<close>

lemma reconcile_append:
  "reconcile uid s e (pre @ tpls) w =
     (case reconcile uid s e pre w of
        (Inl err, w1) \<Rightarrow> (Inl err, w1)
      | (Inr u, w1) \<Rightarrow> reconcile uid s e tpls w1)"
  by (induction pre arbitrary: w) (auto split: prod.splits sum.splits)

lemma ensure_instance_create_fails:
  assumes "find (instance_today uid s e (todo_id tpl)) (rows w) = None" "fuse w = Some 1"
  shows "ensure_instance uid s e tpl w = (Inl StoreFailure, w\<lparr>fuse := Some 0\<rparr>)"
  using assms by (simp add: ensure_instance_def findFirst_def create_def io_defs)

text \<open>
  C7 as the code has it: the loop has no handler of its own. In a listing whose query
  for the templates succeeds, if the templates before \<open>T\<close> are reconciled and the
  creation of the instance of \<open>T\<close> then throws, the request answers 500 with no
  listing; what was created for the earlier templates stays in the table.
\<close>

theorem failed_creation_fails_listing:
  assumes "uid \<noteq> []" and "session_user r = Some uid" and "http_method r = ''GET''"
    and "fuse w = Some (Suc k)"
    and "filter (\<lambda>r. userId r = uid \<and> isTemplate r \<and> recurrence r = DAILY) (rows w) = pre @ T # post"
    and "reconcile uid (start_of_day (now e)) (end_of_day (now e)) pre (w\<lparr>fuse := Some k\<rparr>) = (Inr (), w1)"
    and "find (instance_today uid (start_of_day (now e)) (end_of_day (now e)) (todo_id T)) (rows w1) = None"
    and "fuse w1 = Some 1"
  shows "handler e r w = (Resp 500 (Error ''Internal server error''), w1\<lparr>fuse := Some 0\<rparr>)"
proof -
  let ?s = "start_of_day (now e)" and ?e = "end_of_day (now e)"
  have "reconcile uid ?s ?e (pre @ T # post) (w\<lparr>fuse := Some k\<rparr>) = (Inl StoreFailure, w1\<lparr>fuse := Some 0\<rparr>)"
    using assms(6) ensure_instance_create_fails [OF assms(7,8)]
    by (simp add: reconcile_append)
  with assms(1-5) show ?thesis
    by (simp add: handler_def str_or_def do_GET_def findMany_def io_defs)
qed

theorem failed_creation_fails_listing_witness:
  "filter (\<lambda>r. userId r = ''u1'' \<and> isTemplate r \<and> recurrence r = DAILY) (rows two_templates)
     = [daily ''c'' ''u1'' ''Stretch'' ''07:30''] @ daily ''cc'' ''u1'' ''Read'' ''21:00'' # [] \<and>
   handler env0 (get_req ''u1'') (two_templates\<lparr>fuse := Some 4\<rparr>)
     = (Resp 500 (Error ''Internal server error''),
        \<lparr>rows = rows two_templates @
                  [generated ''cccc'' ''u1'' ''Stretch'' ''c'' (1728000000000 + 7 * 3600000 + 30 * 60000)],
         next_id = 4, fuse = Some 0\<rparr>)"
proof -
  let ?w = "two_templates\<lparr>fuse := Some 4\<rparr>"
  let ?w1 = "\<lparr>rows = rows two_templates @
                  [generated ''cccc'' ''u1'' ''Stretch'' ''c'' (1728000000000 + 7 * 3600000 + 30 * 60000)],
         next_id = 4, fuse = Some 1\<rparr>"
  let ?s = "start_of_day (now env0)" and ?e = "end_of_day (now env0)"
  have a: "''u1'' \<noteq> []" "session_user (get_req ''u1'') = Some ''u1''"
    "http_method (get_req ''u1'') = ''GET''" "fuse ?w = Some (Suc 3)"
    by (simp_all add: get_req_def)
  have b: "filter (\<lambda>r. userId r = ''u1'' \<and> isTemplate r \<and> recurrence r = DAILY) (rows ?w)
     = [daily ''c'' ''u1'' ''Stretch'' ''07:30''] @ daily ''cc'' ''u1'' ''Read'' ''21:00'' # []"
    by (simp add: two_templates_def example_defs)
  have c: "reconcile ''u1'' ?s ?e [daily ''c'' ''u1'' ''Stretch'' ''07:30''] (?w\<lparr>fuse := Some 3\<rparr>)
     = (Inr (), ?w1)"
    by code_simp
  have d: "find (instance_today ''u1'' ?s ?e (todo_id (daily ''cc'' ''u1'' ''Read'' ''21:00''))) (rows ?w1) = None"
    by code_simp
  have f: "fuse ?w1 = Some 1" by simp
  from failed_creation_fails_listing [OF a b c d f] b show ?thesis
    by simp
qed

text \<open>
  C7 as stated fails: with the store throwing on the creation of the one instance
  needed, the answer is 500 and the one-off that the user has is not returned.
\<close>

theorem listing_fails_with_reconciliation:
  "handler env0 (get_req ''u1'') (fresh_store\<lparr>fuse := Some 2\<rparr>)
   = (Resp 500 (Error ''Internal server error''), fresh_store\<lparr>fuse := Some 0\<rparr>) \<and>
   filter (\<lambda>r. userId r = ''u1'' \<and> \<not> isTemplate r) (rows fresh_store)
   = [oneoff ''cc'' ''u1'' ''Buy milk'' ''18:00'' (1728000000000 + 64800000)]"
  by code_simp

subsection \<open>The rows of other users\<close>

text \<open>
  Every query of the handler carries the caller's \<open>userId\<close>. Whatever the request and
  whatever the store does, the rows of every other user are the same before and after,
  and an answer holds rows of the caller only. An update or a delete that names a row
  the caller does not own changes nothing; the delete answers 404 and the update 500.
\<close>

lemma filter_others_map:
  assumes "\<And>r. wh r \<Longrightarrow> userId r = uid" "\<And>r. userId (f r) = userId r"
  shows "filter (\<lambda>r. userId r \<noteq> uid) (map (\<lambda>r. if wh r then f r else r) rs)
         = filter (\<lambda>r. userId r \<noteq> uid) rs"
  using assms by (induction rs) auto

lemma filter_others_filter:
  assumes "\<And>r. wh r \<Longrightarrow> userId r = uid"
  shows "filter (\<lambda>r. userId r \<noteq> uid) (filter (\<lambda>r. \<not> wh r) rs)
         = filter (\<lambda>r. userId r \<noteq> uid) rs"
  using assms by (induction rs) auto

lemma ensure_instance_others:
  assumes "ensure_instance uid s e tpl w = (x, w')"
  shows "filter (\<lambda>r. userId r \<noteq> uid) (rows w') = filter (\<lambda>r. userId r \<noteq> uid) (rows w)"
  using assms
  by (auto simp: ensure_instance_def ret_def new_row_def split: option.splits
      elim!: bindE dest!: findFirst_rows create_rows)

lemma reconcile_others:
  "reconcile uid s e tpls w = (x, w') \<Longrightarrow>
   filter (\<lambda>r. userId r \<noteq> uid) (rows w') = filter (\<lambda>r. userId r \<noteq> uid) (rows w)"
proof (induction tpls arbitrary: w)
  case Nil
  then show ?case by simp
next
  case (Cons tpl tpls)
  obtain y w1 where ei: "ensure_instance uid s e tpl w = (y, w1)"
    by (cases "ensure_instance uid s e tpl w")
  note o1 = ensure_instance_others [OF ei]
  show ?case
  proof (cases y)
    case (Inl err)
    with Cons.prems ei o1 show ?thesis by simp
  next
    case (Inr u)
    with Cons.prems ei have "reconcile uid s e tpls w1 = (x, w')" by simp
    from Cons.IH [OF this] o1 show ?thesis by simp
  qed
qed

lemma do_GET_others:
  assumes "do_GET e uid qc ql w = (x, w')"
  shows "filter (\<lambda>r. userId r \<noteq> uid) (rows w') = filter (\<lambda>r. userId r \<noteq> uid) (rows w)"
  using assms
  by (auto simp: do_GET_def ret_def elim!: bindE dest!: findMany_rows reconcile_others)

lemma do_POST_others:
  assumes "do_POST e uid b w = (x, w')"
  shows "filter (\<lambda>r. userId r \<noteq> uid) (rows w') = filter (\<lambda>r. userId r \<noteq> uid) (rows w)"
  using assms
  by (auto simp: do_POST_def ret_def new_row_def Let_def split: option.splits if_splits
      elim!: bindE dest!: create_rows)

lemma filter_others_update:
  "filter (\<lambda>r. userId r \<noteq> uid) (map (\<lambda>r. if by_id i uid r then apply_updates u r else r) rs)
   = filter (\<lambda>r. userId r \<noteq> uid) rs"
  by (induction rs) (auto simp: by_id_def apply_updates_def)

lemma do_PUT_others:
  assumes "do_PUT e uid b w = (x, w')"
  shows "filter (\<lambda>r. userId r \<noteq> uid) (rows w') = filter (\<lambda>r. userId r \<noteq> uid) (rows w)"
proof -
  have "rows w' = rows w \<or>
        (\<exists>i. rows w' = map (\<lambda>r. if by_id i uid r then apply_updates (build_updates e b) r else r) (rows w))"
    using assms
    by (auto simp: do_PUT_def Let_def ret_def throw_def split: option.splits if_splits
        elim!: bindE dest: update_rows)
  then show ?thesis
    by (auto simp: filter_others_update)
qed

lemma delete_others:
  assumes "delete wh w = (x, w')" "\<And>r. wh r \<Longrightarrow> userId r = uid"
  shows "filter (\<lambda>r. userId r \<noteq> uid) (rows w') = filter (\<lambda>r. userId r \<noteq> uid) (rows w)"
  using delete_rows [OF assms(1)] filter_others_filter [of wh uid "rows w"] assms(2) by auto

lemma deleteMany_others:
  assumes "deleteMany wh w = (x, w')" "\<And>r. wh r \<Longrightarrow> userId r = uid"
  shows "filter (\<lambda>r. userId r \<noteq> uid) (rows w') = filter (\<lambda>r. userId r \<noteq> uid) (rows w)"
  using deleteMany_rows [OF assms(1)] filter_others_filter [of wh uid "rows w"] assms(2) by auto

lemma do_DELETE_others:
  assumes "do_DELETE uid b w = (x, w')"
  shows "filter (\<lambda>r. userId r \<noteq> uid) (rows w') = filter (\<lambda>r. userId r \<noteq> uid) (rows w)"
proof (cases "body_id b")
  case None
  with assms show ?thesis by (simp add: do_DELETE_def ret_def)
next
  case (Some i)
  show ?thesis
  proof (cases "as_string i")
    case None
    with Some assms show ?thesis by (simp add: do_DELETE_def throw_def)
  next
    case (Some ident)
    with \<open>body_id b = Some i\<close> assms
    have "bind (findUnique (by_id ident uid)) (\<lambda>found.
                 case found of
                   None \<Rightarrow> ret (Resp 404 (Error ''Todo not found''))
                 | Some todo \<Rightarrow>
                     if str_or (templateId todo) [] \<noteq> [] then
                       bind (delete (by_id (the (templateId todo)) uid)) (\<lambda>_.
                       bind (deleteMany (\<lambda>r. templateId r = templateId todo \<and> userId r = uid))
                         (\<lambda>_.
                       ret (Resp 200 (Message ''Deleted''))))
                     else if isTemplate todo then
                       bind (deleteMany (\<lambda>r. (todo_id r = ident \<or> templateId r = Some ident)
                                              \<and> userId r = uid)) (\<lambda>_.
                       ret (Resp 200 (Message ''Deleted'')))
                     else
                       bind (delete (by_id ident uid)) (\<lambda>_.
                       ret (Resp 200 (Message ''Deleted'')))) w = (x, w')"
      by (simp add: do_DELETE_def)
    then show ?thesis
    proof (cases rule: bindE)
      case (1 err)
      then show ?thesis by (simp add: findUnique_rows)
    next
      case (2 found w1)
      note fu = this
      then have r1: "rows w1 = rows w" by (simp add: findUnique_rows)
      show ?thesis
      proof (cases found)
        case None
        with fu r1 show ?thesis by (simp add: ret_def)
      next
        case (Some todo)
        consider "str_or (templateId todo) [] \<noteq> []"
          | "str_or (templateId todo) [] = []" "isTemplate todo"
          | "str_or (templateId todo) [] = []" "\<not> isTemplate todo" by blast
        then show ?thesis
        proof cases
          case 1
          with fu Some have "bind (delete (by_id (the (templateId todo)) uid)) (\<lambda>_.
                       bind (deleteMany (\<lambda>r. templateId r = templateId todo \<and> userId r = uid))
                         (\<lambda>_. ret (Resp 200 (Message ''Deleted'')))) w1 = (x, w')" by simp
          then show ?thesis
          proof (cases rule: bindE)
            case (1 err)
            from delete_others [OF 1(1), of uid] r1 show ?thesis by (simp add: by_id_def)
          next
            case (2 y w2)
            from delete_others [OF 2(1), of uid] r1
            have o2: "filter (\<lambda>r. userId r \<noteq> uid) (rows w2) = filter (\<lambda>r. userId r \<noteq> uid) (rows w)"
              by (simp add: by_id_def)
            from 2(2) obtain z where "deleteMany (\<lambda>r. templateId r = templateId todo \<and> userId r = uid) w2 = (z, w')"
              by (auto simp: ret_def elim!: bindE)
            from deleteMany_others [OF this, of uid] o2 show ?thesis by simp
          qed
        next
          case 2
          with fu Some
          obtain z where "deleteMany (\<lambda>r. (todo_id r = ident \<or> templateId r = Some ident)
                                              \<and> userId r = uid) w1 = (z, w')"
            by (auto simp: ret_def elim!: bindE)
          from deleteMany_others [OF this, of uid] r1 show ?thesis by simp
        next
          case 3
          with fu Some
          obtain z where "delete (by_id ident uid) w1 = (z, w')"
            by (auto simp: ret_def elim!: bindE)
          from delete_others [OF this, of uid] r1 show ?thesis by (simp add: by_id_def)
        qed
      qed
    qed
  qed
qed

lemma foreign_rows_untouched:
  "filter (\<lambda>r. userId r \<noteq> str_or (session_user req) []) (rows (snd (handler e req w)))
   = filter (\<lambda>r. userId r \<noteq> str_or (session_user req) []) (rows w)"
proof -
  let ?uid = "str_or (session_user req) []"
  obtain x1 w1 where g: "do_GET e ?uid (query_completed req) (query_limit req) w = (x1, w1)"
    by (cases "do_GET e ?uid (query_completed req) (query_limit req) w")
  obtain x2 w2 where p: "do_POST e ?uid (body req) w = (x2, w2)"
    by (cases "do_POST e ?uid (body req) w")
  obtain x3 w3 where u: "do_PUT e ?uid (body req) w = (x3, w3)"
    by (cases "do_PUT e ?uid (body req) w")
  obtain x4 w4 where d: "do_DELETE ?uid (body req) w = (x4, w4)"
    by (cases "do_DELETE ?uid (body req) w")
  from do_GET_others [OF g] do_POST_others [OF p] do_PUT_others [OF u] do_DELETE_others [OF d]
    g p u d
  show ?thesis
    by (auto simp: handler_def Let_def ret_def split: sum.splits)
qed

lemma set_insert_sorted: "set (insert_sorted cmp x ys) = insert x (set ys)"
  by (induction ys) auto

lemma set_js_sort: "set (js_sort cmp xs) = set xs"
proof -
  have "set (foldl (\<lambda>acc x. insert_sorted cmp x acc) acc xs) = set acc \<union> set xs" for acc
    by (induction xs arbitrary: acc) (auto simp: set_insert_sorted)
  then show ?thesis by (simp add: js_sort_def)
qed

lemma set_apply_take: "set (apply_take n xs) \<subseteq> set xs"
  by (auto simp: apply_take_def dest: in_set_takeD in_set_dropD)

lemma findMany_result:
  "findMany wh tk w = (Inr ts, w') \<Longrightarrow> t \<in> set ts \<Longrightarrow> wh t"
  using set_apply_take [of _ "filter wh (rows w)"]
  by (fastforce simp: findMany_def io_defs split: option.splits nat.splits)

lemma listing_result:
  assumes "findMany (listing_where uid qc) tk w = (Inr ts, w')" "t \<in> set ts"
  shows "userId t = uid"
  using findMany_result [OF assms] by (simp add: listing_where_def)

lemma create_result: "create d w = (Inr t, w') \<Longrightarrow> userId t = userId d"
  by (auto simp: create_def io_defs Let_def split: option.splits nat.splits)

lemma find_holds: "find P xs = Some x \<Longrightarrow> P x"
  by (induction xs) (auto split: if_splits)

lemma userId_apply_updates: "userId (apply_updates u r) = userId r"
  by (simp add: apply_updates_def)

lemma update_result:
  assumes "update (by_id i uid) (apply_updates u) w = (Inr t, w')"
  shows "userId t = uid"
proof -
  from assms obtain r where "find (by_id i uid) (rows w) = Some r" and t: "t = apply_updates u r"
    by (auto simp: update_def io_defs split: option.splits nat.splits)
  then have "by_id i uid r" by (simp add: find_holds)
  with t show ?thesis by (simp add: userId_apply_updates by_id_def)
qed

lemma answers_hold_own_rows:
  assumes "fst (handler e req w) = Resp n p"
  shows "case p of
           Todos ts \<Rightarrow> list_all (\<lambda>t. userId t = str_or (session_user req) []) ts
         | OneTodo t \<Rightarrow> userId t = str_or (session_user req) []
         | _ \<Rightarrow> True"
proof -
  let ?uid = "str_or (session_user req) []"
  have g: ?thesis if a: "do_GET e ?uid qc ql w = (Inr (Resp n p), w')" for qc ql w'
  proof -
    from a obtain ts tk w2 where f: "findMany (listing_where ?uid qc) tk w2 = (Inr ts, w')"
      and p: "p = Todos (js_sort comparator ts)"
      by (auto simp: do_GET_def ret_def elim!: bindE)
    from listing_result [OF f] have "\<forall>t\<in>set ts. userId t = ?uid" by blast
    with p show ?thesis by (simp add: list_all_iff set_js_sort)
  qed
  have po: "do_POST e ?uid b w = (Inr (Resp n p), w') \<Longrightarrow> ?thesis" for b w'
    by (auto simp: do_POST_def ret_def Let_def new_row_def split: option.splits if_splits
        elim!: bindE dest!: create_result)
  have pu: "do_PUT e ?uid b w = (Inr (Resp n p), w') \<Longrightarrow> ?thesis" for b w'
    by (auto simp: do_PUT_def ret_def throw_def Let_def split: option.splits if_splits
        elim!: bindE dest!: update_result)
  have d: "do_DELETE ?uid b w = (Inr (Resp n p), w') \<Longrightarrow> ?thesis" for b w'
    by (auto simp: do_DELETE_def ret_def throw_def split: option.splits if_splits
        elim!: bindE)
  from assms g po pu d show ?thesis
    by (auto simp: handler_def Let_def ret_def split: sum.splits prod.splits if_splits)
qed

lemma update_unmatched_answers_500:
  assumes "session_user req = Some uid" "uid \<noteq> []" "http_method req = ''PUT''"
    "body_id (body req) = Some (JStr i)" "find (by_id i uid) (rows w) = None"
  shows "fst (handler e req w) = Resp 500 (Error ''Internal server error'') \<and>
         rows (snd (handler e req w)) = rows w"
  using assms
  by (auto simp: handler_def do_PUT_def Let_def update_def io_defs str_or_def
      split: option.splits nat.splits)

lemma delete_unmatched_answers_404:
  assumes "session_user req = Some uid" "uid \<noteq> []" "http_method req = ''DELETE''"
    "body_id (body req) = Some (JStr i)" "find (by_id i uid) (rows w) = None" "fuse w \<noteq> Some 0"
  shows "fst (handler e req w) = Resp 404 (Error ''Todo not found'') \<and>
         rows (snd (handler e req w)) = rows w"
  using assms
  by (auto simp: handler_def do_DELETE_def findUnique_def io_defs str_or_def
      split: option.splits nat.splits)

subsection \<open>The order that the listing does have\<close>

text \<open>
  The comparator orders by the instant \<open>dueAt\<close>, a missing one after all others, and the
  sort puts the rows returned in that order.
\<close>

lemma comparator_total: "comparator a b \<le> 0 \<or> comparator b a \<le> 0"
  by (auto simp: comparator_def split: option.splits)

lemma comparator_trans: "comparator a b \<le> 0 \<Longrightarrow> comparator b c \<le> 0 \<Longrightarrow> comparator a c \<le> 0"
  by (auto simp: comparator_def split: option.splits)

lemma sorted_insert_sorted:
  "sorted_wrt (\<lambda>a b. comparator a b \<le> 0) ys \<Longrightarrow>
   sorted_wrt (\<lambda>a b. comparator a b \<le> 0) (insert_sorted comparator x ys)"
proof (induction ys)
  case Nil
  then show ?case by simp
next
  case (Cons y ys)
  show ?case
  proof (cases "comparator y x \<le> 0")
    case True
    with Cons show ?thesis by (auto simp: set_insert_sorted)
  next
    case False
    then have xy: "comparator x y \<le> 0" using comparator_total [of x y] by simp
    with Cons.prems have "\<forall>z\<in>set ys. comparator x z \<le> 0"
      by (auto intro: comparator_trans)
    with False xy Cons.prems show ?thesis by simp
  qed
qed

lemma listing_sorted_by_instant:
  "sorted_wrt (\<lambda>a b. comparator a b \<le> 0) (js_sort comparator xs)"
proof -
  have "sorted_wrt (\<lambda>a b. comparator a b \<le> 0) acc \<Longrightarrow>
        sorted_wrt (\<lambda>a b. comparator a b \<le> 0) (foldl (\<lambda>acc x. insert_sorted comparator x acc) acc xs)" for acc
    by (induction xs arbitrary: acc) (auto simp: sorted_insert_sorted)
  then show ?thesis by (simp add: js_sort_def)
qed

lemma comparator_instants:
  "comparator a b \<le> 0 \<longleftrightarrow>
     (case dueAt a of None \<Rightarrow> dueAt b = None | Some x \<Rightarrow> (case dueAt b of None \<Rightarrow> True | Some y \<Rightarrow> x \<le> y))"
  by (auto simp: comparator_def split: option.splits)

end
